theory Spec2Isabelle
  imports Complex_Main "HOL-Library.Log_Nat"
begin

section \<open>The storefront backend of server.js\<close>

text \<open>
  The embedding follows the database-backed routes of \<^verbatim>\<open>src/server.js\<close> (the second,
  later copy in the file: lines 238 to 331). The document store is explicit state: three
  collections, each a list of documents in insertion order. A route handler is a function
  from the request's fields and the store to a response and the store afterwards.

  Conventions of the embedding:
  \<^item> an \<^verbatim>\<open>ObjectId\<close> is a natural number. The \<^verbatim>\<open>:id\<close> of a route is an \<open>idparam\<close>:
    a string that Mongoose casts to an ObjectId, or one that it cannot cast (\<open>Malformed\<close>,
    as for \<^verbatim>\<open>/products/abc\<close>);
  \<^item> a JavaScript \<^verbatim>\<open>Number\<close> is the rational number that the double stands for.
    Comparison of doubles is exact; subtraction rounds the exact difference to the
    nearest double, ties to even (\<open>jsMinus\<close>). The infinities are not represented;
  \<^item> a request body holds the fields that the route names, and no others. A field that
    a validator reads as a number is a \<open>jsnum\<close>: a JSON number, or any other value, given
    by what the two libraries make of it (whether the validator of the field accepts it,
    and what Mongoose casts it to, if it can). A field read as a string is a \<open>jsstr\<close>
    in the same way;
  \<^item> an exception thrown inside a handler is the error \<open>Unhandled\<close>: the handlers are
    \<^verbatim>\<open>async\<close> functions without a \<^verbatim>\<open>try\<close>, so the handler sends no response of
    its own.
\<close>

subsection \<open>Documents and the store\<close>

type_synonym oid = nat

record product =
  pid :: oid
  name :: string
  price :: rat
  stock :: rat

record user =
  username :: string
  password :: string
  role :: string

record cart_line =
  userId :: string
  productId :: oid
  quantity :: rat

record store =
  products :: "product list"
  users :: "user list"
  carts :: "cart_line list"

subsection \<open>Responses\<close>

text \<open>
  The exceptions that reach no handler: the TypeError of JavaScript, the CastError of a
  Mongoose query, the ValidationError with which \<^verbatim>\<open>save()\<close> rejects a document that
  has a field it could not cast, and the duplicate key error of the store.
\<close>

datatype exn = TypeError | CastError | MongooseValidationError | DuplicateKey

text \<open>
  The error responses of the handlers: \<open>ValidationError\<close> is status 400 with the list of
  messages, \<open>Unauthorized\<close> is 401, \<open>NotFound\<close> is 404, \<open>InsufficientStock\<close> is status 400
  with the one message of the \<^verbatim>\<open>error\<close> field.
\<close>

datatype error =
    ValidationError "string list"
  | Unauthorized
  | NotFound
  | InsufficientStock string
  | Unhandled exn

type_synonym 'a result = "error + 'a"

subsection \<open>Request values\<close>

text \<open>
  \<open>Num x\<close> is the JSON number \<open>x\<close>. \<open>NonNumber ok c\<close> is any other value of a field
  that should hold a number: \<open>ok\<close> tells whether the validator of the field accepts it,
  \<open>c\<close> is the number Mongoose casts it to, \<open>None\<close> when the cast fails. The string
  \<^verbatim>\<open>"12"\<close> is \<open>NonNumber True (Some 12)\<close>, the string \<^verbatim>\<open>"abc"\<close> is
  \<open>NonNumber False None\<close>, and the empty array, whose elements the validators check and
  which has none, is \<open>NonNumber True None\<close>.
\<close>

datatype jsnum = Num rat | NonNumber bool "rat option"

text \<open>
  \<open>Str t\<close> is the JSON string \<open>t\<close>; \<open>NonString ok c\<close> is any other value of a field
  that should hold a string, described in the same way.
\<close>

datatype jsstr = Str string | NonString bool "string option"

datatype idparam = ObjectId oid | Malformed

text \<open>
  A field of the login body: a string, or the operator object \<^verbatim>\<open>{"$ne": v}\<close> with
  \<open>v\<close> a string or \<^verbatim>\<open>null\<close> (\<open>None\<close>). The handler passes either into the filter
  of \<^verbatim>\<open>findOne\<close> as it comes.
\<close>

datatype credential = Text string | Ne "string option"

subsection \<open>Arithmetic of doubles\<close>

definition pow2 :: "int \<Rightarrow> rat" where
  "pow2 k = (if 0 \<le> k then 2 ^ nat k else 1 / 2 ^ nat (- k))"

text \<open>The exponent \<open>e\<close> of a positive number \<open>a\<close>: \<open>2 ^ e \<le> a < 2 ^ (e + 1)\<close>.\<close>

definition exponentOf :: "rat \<Rightarrow> int" where
  "exponentOf a = (if 1 \<le> a then bitlen \<lfloor>a\<rfloor> - 1 else - bitlen (\<lceil>1 / a\<rceil> - 1))"

definition roundHalfEven :: "rat \<Rightarrow> int" where
  "roundHalfEven q =
     (if q - rat_of_int \<lfloor>q\<rfloor> < 1 / 2 then \<lfloor>q\<rfloor>
      else if 1 / 2 < q - rat_of_int \<lfloor>q\<rfloor> then \<lfloor>q\<rfloor> + 1
      else if even \<lfloor>q\<rfloor> then \<lfloor>q\<rfloor> else \<lfloor>q\<rfloor> + 1)"

text \<open>
  The double nearest to \<open>x\<close>: doubles have 53 significant bits, and exponents below
  \<open>- 1022\<close> share the spacing of that exponent (the subnormal numbers). Where the
  result has magnitude \<open>2 ^ 1024\<close> or more JavaScript has an infinity; the definition
  does not represent it and yields the rounded number.
\<close>

definition roundToDouble :: "rat \<Rightarrow> rat" where
  "roundToDouble x =
     (if x = 0 then 0
      else sgn x * rat_of_int (roundHalfEven (\<bar>x\<bar> / pow2 (max (exponentOf \<bar>x\<bar>) (- 1022) - 52)))
             * pow2 (max (exponentOf \<bar>x\<bar>) (- 1022) - 52))"

definition jsMinus :: "rat \<Rightarrow> rat \<Rightarrow> rat" where
  "jsMinus a b = roundToDouble (a - b)"

subsection \<open>The validators of express-validator\<close>

text \<open>
  A validator is applied to the string that JavaScript prints for the value. A number
  is printed in plain decimal notation when it is zero or its magnitude is at least
  \<open>minPlain\<close>, the double nearest to \<open>1e-6\<close>, and below \<open>1e21\<close>; otherwise with an
  exponent, as in \<^verbatim>\<open>1e+21\<close>.
\<close>

definition minPlain :: rat where
  "minPlain = 4722366482869645 / 2 ^ 72"

fun notEmpty :: "jsstr \<Rightarrow> bool" where
  "notEmpty (Str t) = (t \<noteq> [])"
| "notEmpty (NonString ok c) = ok"

text \<open>\<^verbatim>\<open>isNumeric()\<close>: the printed value is a decimal numeral, with or without a point.\<close>

fun isNumeric :: "jsnum \<Rightarrow> bool" where
  "isNumeric (Num x) = (x = 0 \<or> (minPlain \<le> \<bar>x\<bar> \<and> \<bar>x\<bar> < 10 ^ 21))"
| "isNumeric (NonNumber ok c) = ok"

text \<open>
  \<^verbatim>\<open>isInt({ min: m })\<close>: the printed value is a numeral of digits only, so the number
  is whole and below \<open>1e21\<close> in magnitude, and it is at least \<open>m\<close>.
\<close>

fun isInt :: "rat \<Rightarrow> jsnum \<Rightarrow> bool" where
  "isInt m (Num x) = (rat_of_int \<lfloor>x\<rfloor> = x \<and> \<bar>x\<bar> < 10 ^ 21 \<and> m \<le> x)"
| "isInt m (NonNumber ok c) = ok"

text \<open>
  The chain in front of \<^verbatim>\<open>POST /products\<close> and \<^verbatim>\<open>PUT /products/:id\<close>;
  the result is \<^verbatim>\<open>validationResult(req).array()\<close>, the messages of the failed checks
  in the order of the chain. (For an array value the chain checks every element and
  repeats the message for each one it rejects; the list here has the message once.)
\<close>

definition productValidators :: "jsstr \<Rightarrow> jsnum \<Rightarrow> jsnum \<Rightarrow> string list" where
  "productValidators nm pr st =
     (if notEmpty nm then [] else [''Name is required'']) @
     (if isNumeric pr then [] else [''Price must be a number'']) @
     (if isInt 0 st then [] else [''Stock must be a non-negative integer''])"

text \<open>
  The chain in front of \<^verbatim>\<open>POST /cart\<close>. The product id of the body is optional:
  \<open>None\<close> is a body without the field.
\<close>

definition cartValidators :: "string \<Rightarrow> oid option \<Rightarrow> jsnum \<Rightarrow> string list" where
  "cartValidators uid pidOpt qty =
     (if notEmpty (Str uid) then [] else [''User ID required'']) @
     (case pidOpt of None \<Rightarrow> [''Product ID required''] | Some i \<Rightarrow> []) @
     (if isInt 1 qty then [] else [''Quantity must be at least 1''])"

subsection \<open>Store operations of Mongoose\<close>

text \<open>Mongoose's casts of a value to the schema types \<^verbatim>\<open>Number\<close>, \<^verbatim>\<open>String\<close>, \<^verbatim>\<open>ObjectId\<close>.\<close>

fun castNumber :: "jsnum \<Rightarrow> rat option" where
  "castNumber (Num r) = Some r"
| "castNumber (NonNumber ok c) = c"

fun castString :: "jsstr \<Rightarrow> string option" where
  "castString (Str t) = Some t"
| "castString (NonString ok c) = c"

fun castObjectId :: "idparam \<Rightarrow> oid option" where
  "castObjectId (ObjectId i) = Some i"
| "castObjectId Malformed = None"

fun findById :: "oid \<Rightarrow> product list \<Rightarrow> product option" where
  "findById i [] = None"
| "findById i (p # ps) = (if pid p = i then Some p else findById i ps)"

text \<open>\<^verbatim>\<open>doc.save()\<close> of a fetched product: the document with its id is written back.\<close>

fun saveProduct :: "product \<Rightarrow> product list \<Rightarrow> product list" where
  "saveProduct d [] = []"
| "saveProduct d (p # ps) = (if pid p = pid d then d # ps else p # saveProduct d ps)"

definition findByIdAndUpdate ::
  "oid \<Rightarrow> (product \<Rightarrow> product) \<Rightarrow> product list \<Rightarrow> product option \<times> product list" where
  "findByIdAndUpdate i f ps =
     (case findById i ps of
        None \<Rightarrow> (None, ps)
      | Some p \<Rightarrow> (Some (f p), saveProduct (f p) ps))"

fun findByIdAndDelete :: "oid \<Rightarrow> product list \<Rightarrow> product list" where
  "findByIdAndDelete i [] = []"
| "findByIdAndDelete i (p # ps) = (if pid p = i then ps else p # findByIdAndDelete i ps)"

text \<open>Whether a stored string satisfies the condition that a field of the filter states.\<close>

fun matches :: "credential \<Rightarrow> string \<Rightarrow> bool" where
  "matches (Text t) v = (v = t)"
| "matches (Ne None) v = True"
| "matches (Ne (Some t)) v = (v \<noteq> t)"

definition findOneUser :: "credential \<Rightarrow> credential \<Rightarrow> user list \<Rightarrow> user option" where
  "findOneUser un pw us = List.find (\<lambda>u. matches un (username u) \<and> matches pw (password u)) us"

definition cartFind :: "string \<Rightarrow> cart_line list \<Rightarrow> cart_line list" where
  "cartFind uid cs = filter (\<lambda>l. userId l = uid) cs"

definition cartDeleteMany :: "string \<Rightarrow> cart_line list \<Rightarrow> cart_line list" where
  "cartDeleteMany uid cs = filter (\<lambda>l. userId l \<noteq> uid) cs"

subsection \<open>The route handlers\<close>

text \<open>\<^verbatim>\<open>POST /login\<close>\<close>

definition login :: "credential \<Rightarrow> credential \<Rightarrow> store \<Rightarrow> string result" where
  "login un pw s =
     (case findOneUser un pw (users s) of
        Some foundUser \<Rightarrow> Inr (role foundUser)
      | None \<Rightarrow> Inl Unauthorized)"


text \<open>
  \<^verbatim>\<open>POST /products\<close>. The id of the new document is generated by the driver; it is
  the argument \<open>newId\<close>. \<^verbatim>\<open>save()\<close> rejects a document with a field that could not be
  cast, and the store rejects an id that is in the collection already.
\<close>

definition createProduct ::
  "oid \<Rightarrow> jsstr \<Rightarrow> jsnum \<Rightarrow> jsnum \<Rightarrow> store \<Rightarrow> (string \<times> product) result \<times> store" where
  "createProduct newId nm pr st s =
     (let errors = productValidators nm pr st in
      if errors \<noteq> [] then (Inl (ValidationError errors), s)
      else
        (case (castString nm, castNumber pr, castNumber st) of
           (Some n, Some p, Some k) \<Rightarrow>
             (let newProduct = \<lparr>pid = newId, name = n, price = p, stock = k\<rparr>
              in case findById newId (products s) of
                   None \<Rightarrow>
                     (Inr (''Product created'', newProduct),
                      s\<lparr>products := products s @ [newProduct]\<rparr>)
                 | Some d \<Rightarrow> (Inl (Unhandled DuplicateKey), s))
         | _ \<Rightarrow> (Inl (Unhandled MongooseValidationError), s)))"

text \<open>
  \<^verbatim>\<open>PUT /products/:id\<close>. \<^verbatim>\<open>findByIdAndUpdate\<close> casts the id and the fields of the
  update before it asks the store, and throws a CastError when a cast fails.
\<close>

definition updateProduct ::
  "idparam \<Rightarrow> jsstr \<Rightarrow> jsnum \<Rightarrow> jsnum \<Rightarrow> store \<Rightarrow> (string \<times> product) result \<times> store" where
  "updateProduct i nm pr st s =
     (let errors = productValidators nm pr st in
      if errors \<noteq> [] then (Inl (ValidationError errors), s)
      else
        (case (castObjectId i, castString nm, castNumber pr, castNumber st) of
           (Some j, Some n, Some p, Some k) \<Rightarrow>
             (case findByIdAndUpdate j (\<lambda>d. d\<lparr>name := n, price := p, stock := k\<rparr>) (products s) of
                (None, ps) \<Rightarrow> (Inl NotFound, s)
              | (Some updated, ps) \<Rightarrow>
                  (Inr (''Product updated'', updated), s\<lparr>products := ps\<rparr>))
         | _ \<Rightarrow> (Inl (Unhandled CastError), s)))"

text \<open>\<^verbatim>\<open>DELETE /products/:id\<close>\<close>

definition deleteProduct :: "idparam \<Rightarrow> store \<Rightarrow> string result \<times> store" where
  "deleteProduct i s =
     (case castObjectId i of
        None \<Rightarrow> (Inl (Unhandled CastError), s)
      | Some j \<Rightarrow>
          (Inr ''Product deleted'', s\<lparr>products := findByIdAndDelete j (products s)\<rparr>))"

text \<open>
  \<^verbatim>\<open>POST /cart\<close>. The chain \<open>cartValidators\<close> runs in front of the handler, but the
  handler never reads \<^verbatim>\<open>validationResult(req)\<close>, so the chain has no effect on the
  response. \<^verbatim>\<open>findById(undefined)\<close> finds nothing.
\<close>

definition addToCart :: "string \<Rightarrow> oid option \<Rightarrow> rat \<Rightarrow> store \<Rightarrow> string result \<times> store" where
  "addToCart uid pidOpt qty s =
     (case pidOpt of
        None \<Rightarrow> (Inl (InsufficientStock ''Insufficient stock or product not found''), s)
      | Some i \<Rightarrow>
          (case findById i (products s) of
             None \<Rightarrow> (Inl (InsufficientStock ''Insufficient stock or product not found''), s)
           | Some p \<Rightarrow>
               if stock p < qty
               then (Inl (InsufficientStock ''Insufficient stock or product not found''), s)
               else (Inr ''Added to cart'',
                     s\<lparr>carts := carts s @ [\<lparr>userId = uid, productId = i, quantity = qty\<rparr>]\<rparr>)))"

text \<open>
  \<^verbatim>\<open>POST /cart/purchase\<close>. \<open>settleLine\<close> is the body of the \<^verbatim>\<open>for\<close> loop. In its
  \<^verbatim>\<open>else\<close> branch the message reads \<^verbatim>\<open>product.name\<close>; when the product was not found,
  \<^verbatim>\<open>product\<close> is \<^verbatim>\<open>null\<close> and the read throws a TypeError.
\<close>

definition settleLine :: "cart_line \<Rightarrow> product list \<Rightarrow> error + product list" where
  "settleLine item ps =
     (case findById (productId item) ps of
        Some p \<Rightarrow>
          if quantity item \<le> stock p
          then Inr (saveProduct (p\<lparr>stock := jsMinus (stock p) (quantity item)\<rparr>) ps)
          else Inl (InsufficientStock (''Insufficient stock for '' @ name p))
      | None \<Rightarrow> Inl (Unhandled TypeError))"

text \<open>The loop: the first failing line ends it, with the products as saved so far.\<close>

fun purchaseLoop :: "cart_line list \<Rightarrow> product list \<Rightarrow> error option \<times> product list" where
  "purchaseLoop [] ps = (None, ps)"
| "purchaseLoop (item # items) ps =
     (case settleLine item ps of
        Inr ps' \<Rightarrow> purchaseLoop items ps'
      | Inl e \<Rightarrow> (Some e, ps))"

definition purchase :: "string \<Rightarrow> store \<Rightarrow> string result \<times> store" where
  "purchase uid s =
     (let items = cartFind uid (carts s) in
      case purchaseLoop items (products s) of
        (Some e, ps) \<Rightarrow> (Inl e, s\<lparr>products := ps\<rparr>)
      | (None, ps) \<Rightarrow>
          (Inr ''Purchase successful!'',
           s\<lparr>products := ps, carts := cartDeleteMany uid (carts s)\<rparr>))"

subsection \<open>The parts of the settlement loop\<close>

text \<open>
  The condition of the loop body, \<^verbatim>\<open>product && product.stock >= item.quantity\<close>, and
  its \<^verbatim>\<open>then\<close> branch, \<^verbatim>\<open>product.stock -= item.quantity; await product.save()\<close>,
  on their own.
\<close>

definition passesCheck :: "cart_line \<Rightarrow> product list \<Rightarrow> bool" where
  "passesCheck item ps =
     (case findById (productId item) ps of
        Some p \<Rightarrow> quantity item \<le> stock p
      | None \<Rightarrow> False)"

definition decrementStock :: "cart_line \<Rightarrow> product list \<Rightarrow> product list" where
  "decrementStock item ps =
     (case findById (productId item) ps of
        Some p \<Rightarrow> saveProduct (p\<lparr>stock := jsMinus (stock p) (quantity item)\<rparr>) ps
      | None \<Rightarrow> ps)"




subsection \<open>Requests served one after the other\<close>

datatype request =
    Login credential credential
  | ListProducts
  | CreateProduct oid jsstr jsnum jsnum
  | UpdateProduct idparam jsstr jsnum jsnum
  | DeleteProduct idparam
  | AddToCart string "oid option" rat
  | Purchase string

text \<open>The store after one request, and after a sequence of requests.\<close>

fun handle :: "request \<Rightarrow> store \<Rightarrow> store" where
  "handle (Login un pw) s = s"
| "handle ListProducts s = s"
| "handle (CreateProduct newId nm pr st) s = snd (createProduct newId nm pr st s)"
| "handle (UpdateProduct i nm pr st) s = snd (updateProduct i nm pr st s)"
| "handle (DeleteProduct i) s = snd (deleteProduct i s)"
| "handle (AddToCart uid pidOpt qty) s = snd (addToCart uid pidOpt qty s)"
| "handle (Purchase uid) s = snd (purchase uid s)"

fun serve :: "request list \<Rightarrow> store \<Rightarrow> store" where
  "serve [] s = s"
| "serve (r # rs) s = serve rs (handle r s)"

subsection \<open>Properties of a store\<close>

text \<open>The store keeps \<^verbatim>\<open>_id\<close> unique within a collection.\<close>

definition uniqueIds :: "store \<Rightarrow> bool" where
  "uniqueIds s = distinct (map pid (products s))"

definition stocksNonNegative :: "store \<Rightarrow> bool" where
  "stocksNonNegative s = list_all (\<lambda>p. 0 \<le> stock p) (products s)"

subsection \<open>Example stores\<close>

text \<open>The seed data of the source (\<^verbatim>\<open>users\<close> and \<^verbatim>\<open>dummyProducts\<close>), with ids 1 and 2.\<close>

definition dummyUsers :: "user list" where
  "dummyUsers =
     [\<lparr>username = ''admin'', password = ''admin123'', role = ''admin''\<rparr>,
      \<lparr>username = ''user'', password = ''user123'', role = ''user''\<rparr>]"

definition dummyProducts :: "product list" where
  "dummyProducts =
     [\<lparr>pid = 1, name = ''Product A'', price = 10, stock = 100\<rparr>,
      \<lparr>pid = 2, name = ''Product B'', price = 20, stock = 50\<rparr>]"

definition seededStore :: store where
  "seededStore = \<lparr>products = dummyProducts, users = dummyUsers, carts = []\<rparr>"

text \<open>One product of stock 10; a line of quantity 3 for \<open>user\<close>, one of quantity 1 for \<open>admin\<close>.\<close>

definition tenStore :: store where
  "tenStore =
     \<lparr>products = [\<lparr>pid = 1, name = ''Product A'', price = 10, stock = 10\<rparr>],
      users = dummyUsers,
      carts = [\<lparr>userId = ''user'', productId = 1, quantity = 3\<rparr>,
               \<lparr>userId = ''admin'', productId = 1, quantity = 1\<rparr>]\<rparr>"

text \<open>
  The seeded store after \<open>user\<close> has added two lines and product 3, which the second line
  refers to, has been deleted.
\<close>

definition danglingStore :: store where
  "danglingStore =
     \<lparr>products = dummyProducts,
      users = dummyUsers,
      carts = [\<lparr>userId = ''user'', productId = 1, quantity = 2\<rparr>,
               \<lparr>userId = ''user'', productId = 3, quantity = 1\<rparr>]\<rparr>"


section \<open>Lemmas about doubles\<close>

lemma pow2_pos: "0 < pow2 k"
  by (simp add: pow2_def)



lemma roundHalfEven_nonneg: "0 \<le> q \<Longrightarrow> 0 \<le> roundHalfEven q"
  by (auto simp: roundHalfEven_def)

lemma roundToDouble_nonneg: "0 \<le> x \<Longrightarrow> 0 \<le> roundToDouble x"
  by (auto simp: roundToDouble_def pow2_pos less_imp_le roundHalfEven_nonneg)

lemma jsMinus_nonneg: "b \<le> a \<Longrightarrow> 0 \<le> jsMinus a b"
  by (simp add: jsMinus_def roundToDouble_nonneg)




lemma jsMinus_100_2: "jsMinus 100 2 = 98"
  by code_simp


lemma jsMinus_100_half: "jsMinus 100 (1 / 2) = 199 / 2"
  by code_simp


section \<open>Lemmas about the store operations\<close>


lemma findById_None_iff: "findById i ps = None \<longleftrightarrow> i \<notin> pid ` set ps"
  by (induction ps) auto

lemma findById_append: "i \<notin> pid ` set pre \<Longrightarrow> findById i (pre @ ps) = findById i ps"
  by (induction pre) auto

lemma findById_split:
  assumes "i \<in> pid ` set ps"
  shows "\<exists>pre d post. ps = pre @ d # post \<and> pid d = i \<and> i \<notin> pid ` set pre"
proof -
  from assms have "\<exists>x \<in> set ps. pid x = i" by auto
  from split_list_first_prop[OF this] show ?thesis by (metis imageE)
qed


lemma saveProduct_append:
  "pid d \<notin> pid ` set pre \<Longrightarrow> saveProduct d (pre @ ps) = pre @ saveProduct d ps"
  by (induction pre) auto

lemma list_all_saveProduct: "list_all P ps \<Longrightarrow> P d \<Longrightarrow> list_all P (saveProduct d ps)"
  by (induction ps) auto

lemma list_all_findByIdAndDelete: "list_all P ps \<Longrightarrow> list_all P (findByIdAndDelete i ps)"
  by (induction ps) auto

lemma findByIdAndDelete_absent: "i \<notin> pid ` set ps \<Longrightarrow> findByIdAndDelete i ps = ps"
  by (induction ps) auto

lemma findByIdAndDelete_subset: "set (findByIdAndDelete i ps) \<subseteq> set ps"
  by (induction ps) auto

lemma findByIdAndDelete_gone:
  "distinct (map pid ps) \<Longrightarrow> i \<notin> pid ` set (findByIdAndDelete i ps)"
  by (induction ps) (use findByIdAndDelete_subset in auto)

lemma cartDeleteMany_none: "cartFind uid cs = [] \<Longrightarrow> cartDeleteMany uid cs = cs"
  unfolding cartFind_def cartDeleteMany_def
  by (induction cs) (auto split: if_splits)


section \<open>Credential check\<close>

text \<open>
  For a body whose two fields are strings, login is Unauthorized exactly when no stored
  user has that username and that password; otherwise it answers with the role of the
  first user that has both. Unauthorized is the only error of login.
\<close>

lemma login_text_unauthorized_iff:
  "(login (Text un) (Text pw) s = Inl Unauthorized \<longleftrightarrow>
      \<not> (\<exists>u \<in> set (users s). username u = un \<and> password u = pw)) \<and>
   ((\<exists>u \<in> set (users s). username u = un \<and> password u = pw) \<longrightarrow>
      (\<exists>u \<in> set (users s). username u = un \<and> password u = pw \<and>
         login (Text un) (Text pw) s = Inr (role u))) \<and>
   (\<forall>e. login c d s = Inl e \<longrightarrow> e = Unauthorized)"
  unfolding login_def findOneUser_def
  by (auto simp: find_None_iff find_Some_iff split: option.splits)

text \<open>
  Claim C7: the login body \<^verbatim>\<open>{"username": "admin", "password": {"$ne": null}}\<close> on the
  seeded store. The password is not the stored one (it is no string at all), so by the
  claim the answer is Unauthorized, as it is for the wrong string \<open>user123\<close>. The handler
  passes the object into the filter of \<^verbatim>\<open>findOne\<close>, where it is a condition that every
  stored password meets, and answers with the role of \<open>admin\<close>.
\<close>

theorem login_accepts_operator_object:
  "login (Text ''admin'') (Ne None) seededStore = Inr ''admin'' \<and>
   login (Text ''admin'') (Text ''user123'') seededStore = Inl Unauthorized"
  by (simp add: login_def findOneUser_def seededStore_def dummyUsers_def)

section \<open>Catalog service\<close>


lemma productValidators_Nil_iff:
  "productValidators nm pr st = [] \<longleftrightarrow> notEmpty nm \<and> isNumeric pr \<and> isInt 0 st"
  by (simp add: productValidators_def)

lemma createProduct_rejected:
  "productValidators nm pr st \<noteq> [] \<Longrightarrow>
     createProduct newId nm pr st s = (Inl (ValidationError (productValidators nm pr st)), s)"
  by (simp add: createProduct_def Let_def)

lemma createProduct_accepted:
  assumes "productValidators nm pr st = []"
  shows "createProduct newId nm pr st s =
     (case (castString nm, castNumber pr, castNumber st) of
        (Some n, Some p, Some k) \<Rightarrow>
          (case findById newId (products s) of
             None \<Rightarrow>
               (Inr (''Product created'', \<lparr>pid = newId, name = n, price = p, stock = k\<rparr>),
                s\<lparr>products := products s @ [\<lparr>pid = newId, name = n, price = p, stock = k\<rparr>]\<rparr>)
           | Some d \<Rightarrow> (Inl (Unhandled DuplicateKey), s))
      | _ \<Rightarrow> (Inl (Unhandled MongooseValidationError), s))"
  using assms by (simp add: createProduct_def Let_def split: option.splits)




text \<open>
  Claim C5, as the code has it: for an update whose fields the validator chain accepts
  and Mongoose casts, and whose id is a well-formed ObjectId, the response is NotFound,
  and the store is as before, whenever no product has the id. When a product has the
  id, the first (under unique ids: the only) such record gets the cast name, price and
  stock and keeps its id, it is the record returned, and every other record of the
  collection, the users and the carts are as before. With an id that Mongoose cannot
  cast the call throws the CastError and changes nothing.
\<close>

theorem updateProduct_notFound_or_exact:
  assumes "productValidators nm pr st = []"
    and "castString nm = Some n" and "castNumber pr = Some p" and "castNumber st = Some k"
  shows "(j \<notin> pid ` set (products s) \<longrightarrow>
            updateProduct (ObjectId j) nm pr st s = (Inl NotFound, s)) \<and>
         (j \<in> pid ` set (products s) \<longrightarrow>
            (\<exists>pre d post.
               products s = pre @ d # post \<and> pid d = j \<and> j \<notin> pid ` set pre \<and>
               updateProduct (ObjectId j) nm pr st s =
                 (Inr (''Product updated'', d\<lparr>name := n, price := p, stock := k\<rparr>),
                  s\<lparr>products := pre @ d\<lparr>name := n, price := p, stock := k\<rparr> # post\<rparr>))) \<and>
         updateProduct Malformed nm pr st s = (Inl (Unhandled CastError), s)"
proof -
  have nf: "updateProduct (ObjectId j) nm pr st s = (Inl NotFound, s)"
    if "j \<notin> pid ` set (products s)"
  proof -
    from that have "findById j (products s) = None" by (simp add: findById_None_iff)
    with assms show ?thesis by (simp add: updateProduct_def findByIdAndUpdate_def Let_def)
  qed
  have ex: "\<exists>pre d post. products s = pre @ d # post \<and> pid d = j \<and> j \<notin> pid ` set pre \<and>
               updateProduct (ObjectId j) nm pr st s =
                 (Inr (''Product updated'', d\<lparr>name := n, price := p, stock := k\<rparr>),
                  s\<lparr>products := pre @ d\<lparr>name := n, price := p, stock := k\<rparr> # post\<rparr>)"
    if "j \<in> pid ` set (products s)"
  proof -
    from findById_split[OF that] obtain pre d post
      where sp: "products s = pre @ d # post" "pid d = j" "j \<notin> pid ` set pre" by blast
    then have f: "findById j (products s) = Some d" by (simp add: findById_append)
    have "saveProduct (d\<lparr>name := n, price := p, stock := k\<rparr>) (products s)
            = pre @ d\<lparr>name := n, price := p, stock := k\<rparr> # post"
      using sp by (simp add: saveProduct_append)
    with assms f have "updateProduct (ObjectId j) nm pr st s =
                 (Inr (''Product updated'', d\<lparr>name := n, price := p, stock := k\<rparr>),
                  s\<lparr>products := pre @ d\<lparr>name := n, price := p, stock := k\<rparr> # post\<rparr>)"
      by (simp add: updateProduct_def findByIdAndUpdate_def Let_def)
    with sp show ?thesis by blast
  qed
  have bad: "updateProduct Malformed nm pr st s = (Inl (Unhandled CastError), s)"
    using assms by (simp add: updateProduct_def Let_def)
  from nf ex bad show ?thesis by blast
qed

theorem updateProduct_notFound_or_exact_witness:
  "productValidators (Str ''Widget'') (Num 5) (Num 7) = [] \<and>
   9 \<notin> pid ` set (products seededStore) \<and>
   updateProduct (ObjectId 9) (Str ''Widget'') (Num 5) (Num 7) seededStore
     = (Inl NotFound, seededStore) \<and>
   2 \<in> pid ` set (products seededStore) \<and>
   (\<exists>pre d post.
       products seededStore = pre @ d # post \<and> pid d = 2 \<and> 2 \<notin> pid ` set pre \<and>
       updateProduct (ObjectId 2) (Str ''Widget'') (Num 5) (Num 7) seededStore =
         (Inr (''Product updated'', d\<lparr>name := ''Widget'', price := 5, stock := 7\<rparr>),
          seededStore\<lparr>products := pre @ d\<lparr>name := ''Widget'', price := 5, stock := 7\<rparr> # post\<rparr>))"
proof -
  have v: "productValidators (Str ''Widget'') (Num 5) (Num 7) = []"
    by (simp add: productValidators_def minPlain_def)
  have a: "9 \<notin> pid ` set (products seededStore)"
    by (simp add: seededStore_def dummyProducts_def)
  have b: "2 \<in> pid ` set (products seededStore)"
    by (simp add: seededStore_def dummyProducts_def)
  have cs: "castString (Str ''Widget'') = Some ''Widget''"
    and cp: "castNumber (Num 5) = Some 5" and ck: "castNumber (Num 7) = Some 7"
    by simp_all
  note t = updateProduct_notFound_or_exact [OF v cs cp ck]
  from t [of 9 seededStore, THEN conjunct1, rule_format, OF a]
    t [of 2 seededStore, THEN conjunct2, THEN conjunct1, rule_format, OF b] v a b
  show ?thesis by (intro conjI)
qed

text \<open>
  The claim as the specification words it fails at \<^verbatim>\<open>PUT /products/abc\<close> with valid
  fields: no product has this id, and the call does not answer NotFound but throws.
\<close>

theorem updateProduct_malformed_id_throws:
  "updateProduct Malformed (Str ''Widget'') (Num 5) (Num 7) seededStore
     = (Inl (Unhandled CastError), seededStore)"
  by (simp add: updateProduct_def productValidators_def minPlain_def)

text \<open>
  Claim C6, as the code has it: for every id that is a well-formed ObjectId,
  deleteProduct reports success whether or not a record matches, so a second delete of
  the same id succeeds as well; in a store with unique ids no product with that id
  remains after the call, and the second delete changes nothing. With an id that
  Mongoose cannot cast the call throws the CastError and deletes nothing.
\<close>

theorem deleteProduct_total_idempotent:
  "fst (deleteProduct (ObjectId j) s) = Inr ''Product deleted'' \<and>
   fst (deleteProduct (ObjectId j) (snd (deleteProduct (ObjectId j) s))) = Inr ''Product deleted'' \<and>
   (uniqueIds s \<longrightarrow>
      findById j (products (snd (deleteProduct (ObjectId j) s))) = None \<and>
      j \<notin> pid ` set (products (snd (deleteProduct (ObjectId j) s))) \<and>
      snd (deleteProduct (ObjectId j) (snd (deleteProduct (ObjectId j) s)))
        = snd (deleteProduct (ObjectId j) s)) \<and>
   deleteProduct Malformed s = (Inl (Unhandled CastError), s)"
  by (simp add: deleteProduct_def uniqueIds_def findByIdAndDelete_gone
        findByIdAndDelete_absent findById_None_iff)

theorem deleteProduct_total_idempotent_witness:
  "uniqueIds seededStore \<and>
   fst (deleteProduct (ObjectId 1) seededStore) = Inr ''Product deleted'' \<and>
   fst (deleteProduct (ObjectId 1) (snd (deleteProduct (ObjectId 1) seededStore)))
     = Inr ''Product deleted'' \<and>
   findById 1 (products (snd (deleteProduct (ObjectId 1) seededStore))) = None \<and>
   snd (deleteProduct (ObjectId 1) (snd (deleteProduct (ObjectId 1) seededStore)))
     = snd (deleteProduct (ObjectId 1) seededStore)"
proof -
  have u: "uniqueIds seededStore"
    by (simp add: uniqueIds_def seededStore_def dummyProducts_def)
  note t = deleteProduct_total_idempotent [of 1 seededStore]
  from u t [THEN conjunct1] t [THEN conjunct2, THEN conjunct1]
    t [THEN conjunct2, THEN conjunct2, THEN conjunct1, rule_format, OF u]
  show ?thesis by blast
qed

text \<open>
  The claim as the specification words it fails at \<^verbatim>\<open>DELETE /products/abc\<close>: the call
  reports no success but throws.
\<close>

theorem deleteProduct_malformed_id_throws:
  "deleteProduct Malformed seededStore = (Inl (Unhandled CastError), seededStore)"
  by (simp add: deleteProduct_def)

section \<open>Cart accumulation\<close>

lemma addToCart_rejects:
  assumes "pidOpt = None \<or>
     (\<exists>i. pidOpt = Some i \<and>
        (findById i (products s) = None \<or>
         (\<exists>p. findById i (products s) = Some p \<and> stock p < qty)))"
  shows "addToCart uid pidOpt qty s =
     (Inl (InsufficientStock ''Insufficient stock or product not found''), s)"
  using assms by (auto simp: addToCart_def split: option.splits)

lemma addToCart_inserts:
  assumes "findById i (products s) = Some p" and "qty \<le> stock p"
  shows "addToCart uid (Some i) qty s =
     (Inr ''Added to cart'',
      s\<lparr>carts := carts s @ [\<lparr>userId = uid, productId = i, quantity = qty\<rparr>]\<rparr>)"
  using assms by (simp add: addToCart_def)

text \<open>
  Claim C3: a request to addToCart whose quantity is 0 is rejected by the validator chain
  in front of the route (``Quantity must be at least 1''), yet the handler answers
  ``Added to cart'' and inserts the line: the seeded store, user \<open>user\<close>, product 2 of
  stock 50, quantity 0.
\<close>

theorem addToCart_ignores_validators:
  "cartValidators ''user'' (Some 2) (Num 0) = [''Quantity must be at least 1''] \<and>
   addToCart ''user'' (Some 2) 0 seededStore =
     (Inr ''Added to cart'',
      seededStore\<lparr>carts := [\<lparr>userId = ''user'', productId = 2, quantity = 0\<rparr>]\<rparr>)"
  by (simp add: cartValidators_def addToCart_def seededStore_def dummyProducts_def)

text \<open>
  Claim C10: addToCart never changes the product collection (nor the users), whether it
  succeeds or fails; the cart collection is as before or has gained the one new line at
  its end.
\<close>

theorem addToCart_products_unchanged:
  "products (snd (addToCart uid pidOpt qty s)) = products s \<and>
   users (snd (addToCart uid pidOpt qty s)) = users s \<and>
   (carts (snd (addToCart uid pidOpt qty s)) = carts s \<or>
    (\<exists>i. pidOpt = Some i \<and>
       carts (snd (addToCart uid pidOpt qty s)) =
         carts s @ [\<lparr>userId = uid, productId = i, quantity = qty\<rparr>]))"
  by (auto simp: addToCart_def split: option.splits)

section \<open>Checkout settlement\<close>

lemma settleLine_passes:
  "passesCheck item ps \<Longrightarrow> settleLine item ps = Inr (decrementStock item ps)"
  by (auto simp: passesCheck_def settleLine_def decrementStock_def split: option.splits)

lemma settleLine_fails:
  "\<not> passesCheck item ps \<Longrightarrow>
     settleLine item ps =
       Inl (case findById (productId item) ps of
              Some p \<Rightarrow> InsufficientStock (''Insufficient stock for '' @ name p)
            | None \<Rightarrow> Unhandled TypeError)"
  by (auto simp: passesCheck_def settleLine_def split: option.splits)

lemma purchaseLoop_Cons_passes:
  "passesCheck item ps \<Longrightarrow> purchaseLoop (item # items) ps = purchaseLoop items (decrementStock item ps)"
  by (simp add: settleLine_passes)

lemma purchaseLoop_Cons_fails:
  "\<not> passesCheck item ps \<Longrightarrow> fst (purchaseLoop (item # items) ps) \<noteq> None \<and> snd (purchaseLoop (item # items) ps) = ps"
  by (simp add: settleLine_fails)

lemma purchaseLoop_success_iff:
  "fst (purchaseLoop items ps) = None \<longleftrightarrow>
     (\<forall>k < length items. passesCheck (items ! k) (snd (purchaseLoop (take k items) ps)))"
proof (induction items arbitrary: ps)
  case Nil
  show ?case by simp
next
  case (Cons item items)
  show ?case
  proof (cases "passesCheck item ps")
    case True
    have "(\<forall>k < length (item # items). passesCheck ((item # items) ! k) (snd (purchaseLoop (take k (item # items)) ps)))
          \<longleftrightarrow> (\<forall>k < length items. passesCheck (items ! k) (snd (purchaseLoop (take k items) (decrementStock item ps))))"
      using True by (simp add: All_less_Suc2 settleLine_passes)
    with Cons.IH[of "decrementStock item ps"] True show ?thesis
      by (simp add: settleLine_passes)
  next
    case False
    then have "fst (purchaseLoop (item # items) ps) \<noteq> None"
      by (simp add: settleLine_fails)
    moreover from False have "\<not> (\<forall>k < length (item # items). passesCheck ((item # items) ! k) (snd (purchaseLoop (take k (item # items)) ps)))"
      by (auto intro: exI[of _ 0])
    ultimately show ?thesis by blast
  qed
qed

lemma purchaseLoop_success_fold:
  "fst (purchaseLoop items ps) = None \<Longrightarrow>
     snd (purchaseLoop items ps) = foldl (\<lambda>acc item. decrementStock item acc) ps items"
proof (induction items arbitrary: ps)
  case Nil
  show ?case by simp
next
  case (Cons item items)
  then have p: "passesCheck item ps"
    using purchaseLoop_Cons_fails by blast
  with Cons show ?case by (simp add: settleLine_passes)
qed






lemma purchaseLoop_append:
  "fst (purchaseLoop xs ps) = None \<Longrightarrow>
     purchaseLoop (xs @ ys) ps = purchaseLoop ys (snd (purchaseLoop xs ps))"
proof (induction xs arbitrary: ps)
  case Nil
  show ?case by simp
next
  case (Cons item items)
  then have p: "passesCheck item ps"
    using purchaseLoop_Cons_fails by blast
  with Cons show ?case by (simp add: settleLine_passes)
qed


lemma purchase_abort:
  "fst (purchaseLoop (cartFind uid (carts s)) (products s)) = Some e \<Longrightarrow>
     purchase uid s =
       (Inl e, s\<lparr>products := snd (purchaseLoop (cartFind uid (carts s)) (products s))\<rparr>)"
  by (cases "purchaseLoop (cartFind uid (carts s)) (products s)") (simp add: purchase_def)




text \<open>
  Claim C9: for a user with no cart lines, checkout answers ``Purchase successful!'' and
  the whole store (products, users, every cart line) is as before.
\<close>

theorem purchase_empty_cart:
  "cartFind uid (carts s) = [] \<Longrightarrow> purchase uid s = (Inr ''Purchase successful!'', s)"
  by (simp add: purchase_def cartDeleteMany_none)

theorem purchase_empty_cart_witness:
  "cartFind ''guest'' (carts tenStore) = [] \<and>
   purchase ''guest'' tenStore = (Inr ''Purchase successful!'', tenStore)"
proof -
  have e: "cartFind ''guest'' (carts tenStore) = []"
    by (simp add: cartFind_def tenStore_def)
  from e purchase_empty_cart [OF e] show ?thesis by (rule conjI)
qed

lemma purchase_aborts_at_first_failing_line:
  assumes k: "k < length (cartFind uid (carts s))"
    and before: "\<forall>j < k. passesCheck (cartFind uid (carts s) ! j)
                   (snd (purchaseLoop (take j (cartFind uid (carts s))) (products s)))"
    and fails: "\<not> passesCheck (cartFind uid (carts s) ! k)
                   (snd (purchaseLoop (take k (cartFind uid (carts s))) (products s)))"
  shows "purchase uid s =
           (Inl (case findById (productId (cartFind uid (carts s) ! k))
                        (snd (purchaseLoop (take k (cartFind uid (carts s))) (products s))) of
                   Some p \<Rightarrow> InsufficientStock (''Insufficient stock for '' @ name p)
                 | None \<Rightarrow> Unhandled TypeError),
            s\<lparr>products := foldl (\<lambda>acc item. decrementStock item acc) (products s)
                             (take k (cartFind uid (carts s)))\<rparr>)"
proof -
  let ?items = "cartFind uid (carts s)"
  let ?pre = "take k ?items"
  have pre_ok: "fst (purchaseLoop ?pre (products s)) = None"
    using k before by (simp add: purchaseLoop_success_iff)
  have split: "?items = ?pre @ (?items ! k) # drop (Suc k) ?items"
    using k by (rule id_take_nth_drop)
  have "purchaseLoop ?items (products s)
          = purchaseLoop ((?items ! k) # drop (Suc k) ?items) (snd (purchaseLoop ?pre (products s)))"
    using purchaseLoop_append[OF pre_ok, of "(?items ! k) # drop (Suc k) ?items"] split by simp
  also have "\<dots> = (Some (case findById (productId (?items ! k)) (snd (purchaseLoop ?pre (products s))) of
                   Some p \<Rightarrow> InsufficientStock (''Insufficient stock for '' @ name p)
                 | None \<Rightarrow> Unhandled TypeError), snd (purchaseLoop ?pre (products s)))"
    using fails by (simp add: settleLine_fails)
  finally have "purchaseLoop ?items (products s) = (Some (case findById (productId (?items ! k)) (snd (purchaseLoop ?pre (products s))) of
                   Some p \<Rightarrow> InsufficientStock (''Insufficient stock for '' @ name p)
                 | None \<Rightarrow> Unhandled TypeError), snd (purchaseLoop ?pre (products s)))" .
  then show ?thesis
    by (simp add: purchase_def purchaseLoop_success_fold[OF pre_ok])
qed

text \<open>
  Claim C1: checkout for \<open>user\<close> in a store whose second cart line refers to a product
  that no longer exists. The first line is settled (stock 100 becomes 98) and stays so,
  the cart is not cleared, but the outcome at the second line is the TypeError of reading
  \<^verbatim>\<open>product.name\<close> of \<^verbatim>\<open>null\<close>, not an InsufficientStock response.
\<close>

theorem purchase_missing_product_throws:
  "purchase ''user'' danglingStore =
     (Inl (Unhandled TypeError),
      danglingStore\<lparr>products :=
        [\<lparr>pid = 1, name = ''Product A'', price = 10, stock = 98\<rparr>,
         \<lparr>pid = 2, name = ''Product B'', price = 20, stock = 50\<rparr>]\<rparr>) \<and>
   carts (snd (purchase ''user'' danglingStore)) = carts danglingStore \<and>
   (\<forall>msg. fst (purchase ''user'' danglingStore) \<noteq> Inl (InsufficientStock msg))"
  by (simp add: purchase_def cartFind_def settleLine_def danglingStore_def dummyProducts_def
        jsMinus_100_2)


section \<open>The stock invariant\<close>

text \<open>
  The sign of the stock is kept by every operation: the loop of checkout subtracts a
  quantity only from a stock that is at least as large, and the nearest double of a
  difference that is not negative is not negative.
\<close>

lemma settleLine_nonneg:
  assumes "list_all (\<lambda>p. 0 \<le> stock p) ps" and "settleLine item ps = Inr ps'"
  shows "list_all (\<lambda>p. 0 \<le> stock p) ps'"
  using assms
  by (auto simp: settleLine_def jsMinus_nonneg intro: list_all_saveProduct
        split: option.splits if_splits)

lemma purchaseLoop_nonneg:
  "list_all (\<lambda>p. 0 \<le> stock p) ps \<Longrightarrow>
     list_all (\<lambda>p. 0 \<le> stock p) (snd (purchaseLoop items ps))"
proof (induction items arbitrary: ps)
  case Nil
  then show ?case by simp
next
  case (Cons item items)
  show ?case
  proof (cases "settleLine item ps")
    case (Inl e)
    with Cons.prems show ?thesis by simp
  next
    case (Inr ps')
    with Cons.prems have "list_all (\<lambda>p. 0 \<le> stock p) ps'"
      by (rule settleLine_nonneg)
    from Cons.IH[OF this] Inr show ?thesis by simp
  qed
qed

lemma products_purchase:
  "products (snd (purchase uid s)) = snd (purchaseLoop (cartFind uid (carts s)) (products s))"
  by (cases "purchaseLoop (cartFind uid (carts s)) (products s)")
     (auto simp: purchase_def split: option.splits)

lemma addToCart_products: "products (snd (addToCart uid pidOpt qty s)) = products s"
  by (auto simp: addToCart_def split: option.splits)

lemma createProduct_nonneg:
  assumes "stocksNonNegative s"
  shows "stocksNonNegative (snd (createProduct newId nm pr (Num k) s))"
proof (cases "productValidators nm pr (Num k) = []")
  case True
  then have "0 \<le> k" by (simp add: productValidators_Nil_iff)
  with assms show ?thesis
    unfolding createProduct_accepted [OF True]
    by (auto simp: stocksNonNegative_def split: option.splits)
next
  case False
  with assms show ?thesis by (simp add: createProduct_rejected)
qed

lemma updateProduct_nonneg:
  assumes "stocksNonNegative s"
  shows "stocksNonNegative (snd (updateProduct i nm pr (Num k) s))"
proof (cases "productValidators nm pr (Num k) = []")
  case True
  then have "0 \<le> k" by (simp add: productValidators_Nil_iff)
  with assms True show ?thesis
    by (auto simp: updateProduct_def findByIdAndUpdate_def Let_def stocksNonNegative_def
          intro: list_all_saveProduct split: option.splits)
next
  case False
  with assms show ?thesis by (simp add: updateProduct_def Let_def)
qed

lemma stock_sign_kept:
  assumes "stocksNonNegative s"
  shows "stocksNonNegative (snd (createProduct newId nm pr (Num k) s)) \<and>
         stocksNonNegative (snd (updateProduct i nm pr (Num k) s)) \<and>
         stocksNonNegative (snd (deleteProduct i s)) \<and>
         stocksNonNegative (snd (addToCart uid pidOpt qty s)) \<and>
         stocksNonNegative (snd (purchase uid s))"
proof -
  have "stocksNonNegative (snd (deleteProduct i s))"
    using assms
    by (cases i) (simp_all add: deleteProduct_def stocksNonNegative_def list_all_findByIdAndDelete)
  moreover have "stocksNonNegative (snd (addToCart uid pidOpt qty s))"
    using assms by (simp add: stocksNonNegative_def addToCart_products)
  moreover have "stocksNonNegative (snd (purchase uid s))"
    using assms by (simp add: stocksNonNegative_def products_purchase purchaseLoop_nonneg)
  ultimately show ?thesis
    using assms by (simp add: createProduct_nonneg updateProduct_nonneg)
qed

text \<open>
  Claim C8: the stock does not stay a whole number. On the seeded store \<open>user\<close> adds
  product 1 (stock 100) with quantity \<open>1/2\<close>; the validator chain of the route rejects
  the quantity, the handler does not read the verdict and stores the line. Checkout
  then leaves the stock at \<open>199/2\<close>, which is not negative and not whole: the validator
  of the stock field itself would reject it.
\<close>

theorem fractional_quantity_breaks_whole_stock:
  "cartValidators ''user'' (Some 1) (Num (1 / 2)) = [''Quantity must be at least 1''] \<and>
   map stock (products (serve [AddToCart ''user'' (Some 1) (1 / 2), Purchase ''user''] seededStore))
     = [199 / 2, 50] \<and>
   isInt 0 (Num (199 / 2)) = False"
proof (intro conjI)
  show "cartValidators ''user'' (Some 1) (Num (1 / 2)) = [''Quantity must be at least 1'']"
    by code_simp
  show "map stock (products (serve [AddToCart ''user'' (Some 1) (1 / 2), Purchase ''user''] seededStore))
     = [199 / 2, 50]"
    by (simp add: addToCart_def purchase_def cartFind_def settleLine_def seededStore_def
          dummyProducts_def jsMinus_100_half)
  show "isInt 0 (Num (199 / 2)) = False"
    by code_simp
qed

section \<open>Unique ids are kept\<close>

text \<open>Every request keeps the product ids unique.\<close>

lemma map_pid_saveProduct: "map pid (saveProduct d ps) = map pid ps"
  by (induction ps) auto

lemma map_pid_purchaseLoop: "map pid (snd (purchaseLoop items ps)) = map pid ps"
proof (induction items arbitrary: ps)
  case Nil
  show ?case by simp
next
  case (Cons item items)
  show ?case
  proof (cases "passesCheck item ps")
    case True
    then have "map pid (decrementStock item ps) = map pid ps"
      by (auto simp: decrementStock_def map_pid_saveProduct split: option.splits)
    with True Cons.IH[of "decrementStock item ps"] show ?thesis
      by (simp add: settleLine_passes)
  next
    case False
    then show ?thesis by (simp add: settleLine_fails)
  qed
qed

lemma distinct_findByIdAndDelete:
  "distinct (map pid ps) \<Longrightarrow> distinct (map pid (findByIdAndDelete i ps))"
  by (induction ps) (use findByIdAndDelete_subset in auto)

lemma uniqueIds_handle:
  assumes "uniqueIds s"
  shows "uniqueIds (handle r s)"
proof (cases r)
  case (CreateProduct newId nm pr st)
  show ?thesis
  proof (cases "productValidators nm pr st = []")
    case True
    with assms CreateProduct show ?thesis
      by (auto simp: uniqueIds_def createProduct_accepted findById_None_iff
            split: option.splits)
  next
    case False
    with assms CreateProduct show ?thesis by (simp add: createProduct_rejected)
  qed
next
  case (UpdateProduct i nm pr st)
  with assms show ?thesis
    by (auto simp: uniqueIds_def updateProduct_def findByIdAndUpdate_def Let_def
          map_pid_saveProduct split: option.splits)
next
  case (DeleteProduct i)
  with assms show ?thesis
    by (cases i) (simp_all add: uniqueIds_def deleteProduct_def distinct_findByIdAndDelete)
next
  case (AddToCart uid pidOpt qty)
  with assms show ?thesis
    by (simp add: uniqueIds_def addToCart_products)
next
  case (Purchase uid)
  with assms show ?thesis
    by (simp add: uniqueIds_def products_purchase map_pid_purchaseLoop)
qed (use assms in simp_all)

lemma uniqueIds_serve: "uniqueIds s \<Longrightarrow> uniqueIds (serve rs s)"
  by (induction rs arbitrary: s) (simp_all add: uniqueIds_handle)

end
